theory Spec2Isabelle
  imports Main
begin

section \<open>Data model\<close>

text \<open>
  Go's \<open>error\<close> values. \<open>errors.New(msg)\<close> is the only error the providers create
  themselves; every other error comes out of the go-ldap client or the jwt package and
  is carried through unchanged. A directory error is a result code with its message.
\<close>

datatype error = errors_New string | LdapError nat string

text \<open>
  A Go call that ends either by returning its results or by a run-time panic (here: a nil
  pointer dereference).
\<close>

datatype 'a outcome = Panic | Returns 'a

record ObjectMeta =
  Name :: string
  Namespace :: string

text \<open>\<open>corev2.User\<close>, with the three fields the providers fill in.\<close>

record User =
  Username :: string
  Groups :: "string list"
  Disabled :: bool

text \<open>
  \<open>corev2.AuthProviderClaims\<close> and \<open>corev2.Claims\<close>. The sources only touch the
  \<open>Provider\<close> field of the claims; the user name and the groups are the other custom
  fields the claims carry.
\<close>

record AuthProviderClaims =
  ProviderID :: string
  UserID :: string

record Claims =
  claims_Subject :: string
  claims_Groups :: "string list"
  Provider :: AuthProviderClaims

text \<open>The go-ldap search request, as \<open>ldap.NewSearchRequest\<close> fills it (no controls).\<close>

datatype scope = ScopeBaseObject | ScopeSingleLevel | ScopeWholeSubtree

datatype deref = NeverDerefAliases | DerefInSearching | DerefFindingBaseObj | DerefAlways

record SearchRequest =
  BaseDN :: string
  Scope :: scope
  DerefAliases :: deref
  SizeLimit :: nat
  TimeLimit :: nat
  TypesOnly :: bool
  Filter :: string
  Attributes :: "string list"

record Entry =
  DN :: string
  EntryAttributes :: "(string \<times> string list) list"

text \<open>The directory-backed provider (package \<open>ldap\<close>) and the allow-all provider.\<close>

record ldap_Provider =
  ldap_ObjectMeta :: ObjectMeta
  BindUsername :: string
  BindPassword :: string
  StartTLS :: bool
  URL :: string
  UserBaseDN :: string
  UserAttribute :: string
  UserClass :: string
  GroupBaseDN :: string
  GroupAttribute :: string
  GroupClass :: string
  GroupUserDNAttribute :: string

record allowall_Provider =
  allowall_ObjectMeta :: ObjectMeta

section \<open>The environment: directory server, logger and jwt package\<close>

text \<open>
  Every call that leaves the providers is recorded, in order, in a trace. The argument of
  a \<open>Debugf\<close> call is a string or a string slice.
\<close>

datatype logarg = ArgString string | ArgStrings "string list"

datatype event =
    EvDebugf string "logarg list"
  | EvDialURL string nat
  | EvStartTLS bool
  | EvBind string string
  | EvSearch SearchRequest
  | EvClose
  | EvNewClaims User

type_synonym trace = "event list"

text \<open>
  What the outside answers. Each answer may depend on everything that happened before
  (the trace at the moment of the call), so a directory whose state changes between two
  connections is covered. \<open>newclaims_reply\<close> is \<open>jwt.NewClaims\<close>, which is not part of
  the sources: the pair is Go's \<open>(*Claims, error)\<close>, either half of which may be nil.
  \<open>GetAttributeValue\<close> is the go-ldap accessor of an entry.
\<close>

record world =
  dial_reply :: "trace \<Rightarrow> string \<Rightarrow> nat \<Rightarrow> error option"
  tls_reply :: "trace \<Rightarrow> bool \<Rightarrow> error option"
  bind_reply :: "trace \<Rightarrow> string \<Rightarrow> string \<Rightarrow> error option"
  search_reply :: "trace \<Rightarrow> SearchRequest \<Rightarrow> error + Entry list"
  GetAttributeValue :: "Entry \<Rightarrow> string \<Rightarrow> string"
  newclaims_reply :: "trace \<Rightarrow> User \<Rightarrow> Claims option \<times> error option"

definition Debugf :: "string \<Rightarrow> logarg list \<Rightarrow> trace \<Rightarrow> trace" where
  "Debugf fmt args tr = tr @ [EvDebugf fmt args]"

definition DialURL :: "world \<Rightarrow> string \<Rightarrow> nat \<Rightarrow> trace \<Rightarrow> error option \<times> trace" where
  "DialURL w url tmo tr = (dial_reply w tr url tmo, tr @ [EvDialURL url tmo])"

definition conn_StartTLS :: "world \<Rightarrow> bool \<Rightarrow> trace \<Rightarrow> error option \<times> trace" where
  "conn_StartTLS w insecure tr = (tls_reply w tr insecure, tr @ [EvStartTLS insecure])"

definition conn_Bind :: "world \<Rightarrow> string \<Rightarrow> string \<Rightarrow> trace \<Rightarrow> error option \<times> trace" where
  "conn_Bind w username password tr =
     (bind_reply w tr username password, tr @ [EvBind username password])"

definition conn_Search ::
  "world \<Rightarrow> SearchRequest \<Rightarrow> trace \<Rightarrow> (error + Entry list) \<times> trace" where
  "conn_Search w req tr = (search_reply w tr req, tr @ [EvSearch req])"

definition conn_Close :: "trace \<Rightarrow> trace" where
  "conn_Close tr = tr @ [EvClose]"

definition jwt_NewClaims ::
  "world \<Rightarrow> User \<Rightarrow> trace \<Rightarrow> (Claims option \<times> error option) \<times> trace" where
  "jwt_NewClaims w user tr = (newclaims_reply w tr user, tr @ [EvNewClaims user])"

section \<open>The directory-backed provider\<close>

definition ldap_Type :: string where
  "ldap_Type = ''ldap''"

definition ldap_Name :: "ldap_Provider \<Rightarrow> string" where
  "ldap_Name p = ldap_Type"

text \<open>\<open>var timeout = 2 * time.Second\<close>, in nanoseconds.\<close>

definition timeout :: nat where
  "timeout = 2 * 1000000000"

text \<open>\<open>fmt.Sprintf("(&(objectClass=%s)(%s=%s))", c, a, v)\<close>\<close>

definition search_filter :: "string \<Rightarrow> string \<Rightarrow> string \<Rightarrow> string" where
  "search_filter c a v = ''(&(objectClass='' @ c @ '')('' @ a @ ''='' @ v @ ''))''"

definition userSearchRequest :: "ldap_Provider \<Rightarrow> string \<Rightarrow> SearchRequest" where
  "userSearchRequest p username =
     \<lparr>BaseDN = UserBaseDN p, Scope = ScopeWholeSubtree, DerefAliases = NeverDerefAliases,
      SizeLimit = 0, TimeLimit = 0, TypesOnly = False,
      Filter = search_filter (UserClass p) (UserAttribute p) username,
      Attributes = [''dn'']\<rparr>"

definition groupSearchRequest :: "ldap_Provider \<Rightarrow> string \<Rightarrow> SearchRequest" where
  "groupSearchRequest p userdn =
     \<lparr>BaseDN = GroupBaseDN p, Scope = ScopeWholeSubtree, DerefAliases = NeverDerefAliases,
      SizeLimit = 0, TimeLimit = 0, TypesOnly = False,
      Filter = search_filter (GroupClass p) (GroupUserDNAttribute p) userdn,
      Attributes = [GroupAttribute p]\<rparr>"

text \<open>
  \<open>getDN\<close>. After a successful dial the connection is closed on every way out
  (\<open>defer l.Close()\<close>): \<open>getDN_conn\<close> is the part of the function that runs with the
  connection open, \<open>getDN\<close> logs, dials, runs it and closes.
\<close>

definition getDN_conn ::
  "ldap_Provider \<Rightarrow> world \<Rightarrow> string \<Rightarrow> trace \<Rightarrow> (error + string) \<times> trace" where
  "getDN_conn p w username t1 =
     (case (if StartTLS p then conn_StartTLS w True t1 else (None, t1)) of
        (Some err, t2) \<Rightarrow> (Inl err, t2)
      | (None, t2) \<Rightarrow>
          (case conn_Bind w (BindUsername p) (BindPassword p) t2 of
             (Some err, t3) \<Rightarrow> (Inl err, t3)
           | (None, t3) \<Rightarrow>
               (case conn_Search w (userSearchRequest p username) t3 of
                  (Inl err, t4) \<Rightarrow> (Inl err, t4)
                | (Inr entries, t4) \<Rightarrow>
                    (if length entries \<noteq> 1
                     then (Inl (errors_New ''User does not exist or too many entries returned''), t4)
                     else (Inr (DN (entries ! 0)), t4)))))"

definition getDN ::
  "ldap_Provider \<Rightarrow> world \<Rightarrow> string \<Rightarrow> trace \<Rightarrow> (error + string) \<times> trace" where
  "getDN p w username tr =
     (case DialURL w (URL p) timeout (Debugf ''Getting DN for: %s'' [ArgString username] tr) of
        (Some err, t1) \<Rightarrow> (Inl err, t1)
      | (None, t1) \<Rightarrow>
          (case getDN_conn p w username t1 of (r, t) \<Rightarrow> (r, conn_Close t)))"

text \<open>\<open>validatePassword\<close>: nil (\<open>None\<close>) when the bind as the user went through.\<close>

definition validatePassword_conn ::
  "ldap_Provider \<Rightarrow> world \<Rightarrow> string \<Rightarrow> string \<Rightarrow> trace \<Rightarrow> error option \<times> trace" where
  "validatePassword_conn p w dn password t1 =
     (case (if StartTLS p then conn_StartTLS w True t1 else (None, t1)) of
        (Some err, t2) \<Rightarrow> (Some err, t2)
      | (None, t2) \<Rightarrow>
          (case conn_Bind w dn password t2 of
             (Some err, t3) \<Rightarrow> (Some err, t3)
           | (None, t3) \<Rightarrow> (None, t3)))"

definition validatePassword ::
  "ldap_Provider \<Rightarrow> world \<Rightarrow> string \<Rightarrow> string \<Rightarrow> trace \<Rightarrow> error option \<times> trace" where
  "validatePassword p w dn password tr =
     (case DialURL w (URL p) timeout
             (Debugf ''Validating password for: %s'' [ArgString dn] tr) of
        (Some err, t1) \<Rightarrow> (Some err, t1)
      | (None, t1) \<Rightarrow>
          (case validatePassword_conn p w dn password t1 of (r, t) \<Rightarrow> (r, conn_Close t)))"

text \<open>
  \<open>getGroups\<close>. The loop over \<open>sr.Entries\<close> appends one attribute value per entry to
  \<open>groups\<close>, which starts as the nil slice.
\<close>

fun collect_groups :: "world \<Rightarrow> string \<Rightarrow> string list \<Rightarrow> Entry list \<Rightarrow> string list" where
  "collect_groups w attr groups [] = groups"
| "collect_groups w attr groups (entry # rest) =
     collect_groups w attr (groups @ [GetAttributeValue w entry attr]) rest"

definition getGroups_conn ::
  "ldap_Provider \<Rightarrow> world \<Rightarrow> string \<Rightarrow> trace \<Rightarrow> (error + string list) \<times> trace" where
  "getGroups_conn p w userdn t1 =
     (case (if StartTLS p then conn_StartTLS w True t1 else (None, t1)) of
        (Some err, t2) \<Rightarrow> (Inl err, t2)
      | (None, t2) \<Rightarrow>
          (case conn_Bind w (BindUsername p) (BindPassword p) t2 of
             (Some err, t3) \<Rightarrow> (Inl err, t3)
           | (None, t3) \<Rightarrow>
               (case conn_Search w (groupSearchRequest p userdn) t3 of
                  (Inl err, t4) \<Rightarrow>
                    (Inl err,
                     Debugf ''Group search filter: %s''
                       [ArgString (Filter (groupSearchRequest p userdn))]
                       (Debugf ''Group search base dn: %s''
                          [ArgString (BaseDN (groupSearchRequest p userdn))] t4))
                | (Inr entries, t4) \<Rightarrow>
                    (let groups = collect_groups w (GroupAttribute p) [] entries
                     in (Inr groups,
                         Debugf ''%s is a member of: %s''
                           [ArgString userdn, ArgStrings groups] t4)))))"

definition getGroups ::
  "ldap_Provider \<Rightarrow> world \<Rightarrow> string \<Rightarrow> trace \<Rightarrow> (error + string list) \<times> trace" where
  "getGroups p w userdn tr =
     (case DialURL w (URL p) timeout (Debugf ''Getting groups for: %s'' [ArgString userdn] tr) of
        (Some err, t1) \<Rightarrow> (Inl err, t1)
      | (None, t1) \<Rightarrow>
          (case getGroups_conn p w userdn t1 of (r, t) \<Rightarrow> (r, conn_Close t)))"

text \<open>
  The claims builder. \<open>claims.Provider = ...\<close> is executed before anything looks at
  \<open>err\<close>: with a nil \<open>claims\<close> the assignment panics, otherwise the pointer and the
  error of \<open>jwt.NewClaims\<close> are both handed back.
\<close>

definition ldap_claims ::
  "ldap_Provider \<Rightarrow> world \<Rightarrow> string \<Rightarrow> string list \<Rightarrow> trace \<Rightarrow>
     (Claims option \<times> error option) outcome \<times> trace" where
  "ldap_claims p w username groups tr =
     (let user = \<lparr>Username = username, Groups = groups, Disabled = False\<rparr>
      in case jwt_NewClaims w user tr of
           ((None, err), t) \<Rightarrow> (Panic, t)
         | ((Some claims, err), t) \<Rightarrow>
             (Returns
                (Some (claims\<lparr>Provider := \<lparr>ProviderID = ldap_Name p, UserID = username\<rparr>\<rparr>),
                 err),
              t))"

definition ldap_Authenticate ::
  "ldap_Provider \<Rightarrow> world \<Rightarrow> string \<Rightarrow> string \<Rightarrow> trace \<Rightarrow>
     (Claims option \<times> error option) outcome \<times> trace" where
  "ldap_Authenticate p w username password tr =
     (case getDN p w username (Debugf ''Authenticating: %s'' [ArgString username] tr) of
        (Inl err, t1) \<Rightarrow> (Returns (None, Some err), t1)
      | (Inr dn, t1) \<Rightarrow>
          (case validatePassword p w dn password t1 of
             (Some err, t2) \<Rightarrow> (Returns (None, Some err), t2)
           | (None, t2) \<Rightarrow>
               (case getGroups p w dn t2 of
                  (Inl err, t3) \<Rightarrow> (Returns (None, Some err), t3)
                | (Inr groups, t3) \<Rightarrow> ldap_claims p w username groups t3)))"

text \<open>
  \<open>Refresh\<close> takes a pointer to the presented claims; reading \<open>claims.Provider.UserID\<close>
  through a nil pointer panics.
\<close>

definition ldap_Refresh ::
  "ldap_Provider \<Rightarrow> world \<Rightarrow> Claims option \<Rightarrow> trace \<Rightarrow>
     (Claims option \<times> error option) outcome \<times> trace" where
  "ldap_Refresh p w claims tr =
     (case claims of
        None \<Rightarrow> (Panic, tr)
      | Some c \<Rightarrow>
          (case getDN p w (UserID (Provider c))
                  (Debugf ''Refreshing: %s'' [ArgString (UserID (Provider c))] tr) of
             (Inl err, t1) \<Rightarrow> (Returns (None, Some err), t1)
           | (Inr dn, t1) \<Rightarrow>
               (case getGroups p w dn t1 of
                  (Inl err, t2) \<Rightarrow> (Returns (None, Some err), t2)
                | (Inr groups, t2) \<Rightarrow> ldap_claims p w (UserID (Provider c)) groups t2)))"

section \<open>The allow-all provider\<close>

definition allowall_Type :: string where
  "allowall_Type = ''allowall''"

definition allowall_Name :: "allowall_Provider \<Rightarrow> string" where
  "allowall_Name p = allowall_Type"

definition allowall_claims ::
  "allowall_Provider \<Rightarrow> world \<Rightarrow> string \<Rightarrow> trace \<Rightarrow>
     (Claims option \<times> error option) outcome \<times> trace" where
  "allowall_claims p w username tr =
     (let user = \<lparr>Username = username, Groups = [''cluster-admins''], Disabled = False\<rparr>
      in case jwt_NewClaims w user tr of
           ((None, err), t) \<Rightarrow> (Panic, t)
         | ((Some claims, err), t) \<Rightarrow>
             (Returns
                (Some (claims\<lparr>Provider := \<lparr>ProviderID = allowall_Name p, UserID = username\<rparr>\<rparr>),
                 err),
              t))"

definition allowall_Authenticate ::
  "allowall_Provider \<Rightarrow> world \<Rightarrow> string \<Rightarrow> string \<Rightarrow> trace \<Rightarrow>
     (Claims option \<times> error option) outcome \<times> trace" where
  "allowall_Authenticate p w username password tr =
     allowall_claims p w username (Debugf ''Authenticating: %s'' [ArgString username] tr)"

definition allowall_Refresh ::
  "allowall_Provider \<Rightarrow> world \<Rightarrow> Claims option \<Rightarrow> trace \<Rightarrow>
     (Claims option \<times> error option) outcome \<times> trace" where
  "allowall_Refresh p w claims tr =
     (case claims of
        None \<Rightarrow> (Panic, tr)
      | Some c \<Rightarrow>
          allowall_claims p w (UserID (Provider c))
            (Debugf ''Refreshing: %s'' [ArgString (UserID (Provider c))] tr))"

section \<open>The policy rule matcher\<close>

record Rule =
  Verbs :: "string list"
  Resources :: "string list"
  ResourceNames :: "string list"

text \<open>
  Modelled from the spec: the constant \<open>ResourceAll\<close> is used by the tests but declared
  outside the sources; the spec calls it the all-resources wildcard token and writes the
  wildcard as \<open>*\<close>.
\<close>

definition ResourceAll :: string where
  "ResourceAll = ''*''"

text \<open>
  Modelled from the spec: \<open>Rule.ResourceMatches\<close> is exercised by
  \<open>TestRuleResourceMatches\<close> but its body is not among the sources. Following the spec
  (section 4.4), the rule's resources are walked in order and the first entry that is
  the wildcard or the requested resource decides; running out of entries denies.
\<close>

fun resource_loop :: "string list \<Rightarrow> string \<Rightarrow> bool" where
  "resource_loop [] requestedResource = False"
| "resource_loop (resource # rest) requestedResource =
     (if resource = ResourceAll then True
      else if resource = requestedResource then True
      else resource_loop rest requestedResource)"

definition ResourceMatches :: "Rule \<Rightarrow> string \<Rightarrow> bool" where
  "ResourceMatches r requestedResource = resource_loop (Resources r) requestedResource"

text \<open>
  Modelled from the spec: \<open>Rule.ResourceNameMatches\<close> is exercised by
  \<open>TestRuleResourceNameMatches\<close> but its body is not among the sources. Following the
  spec (section 4.4), a rule without resource names allows every name; otherwise the
  names are walked in order looking for the requested one.
\<close>

fun name_loop :: "string list \<Rightarrow> string \<Rightarrow> bool" where
  "name_loop [] requestedResourceName = False"
| "name_loop (name # rest) requestedResourceName =
     (if name = requestedResourceName then True else name_loop rest requestedResourceName)"

definition ResourceNameMatches :: "Rule \<Rightarrow> string \<Rightarrow> bool" where
  "ResourceNameMatches r requestedResourceName =
     (if length (ResourceNames r) = 0 then True
      else name_loop (ResourceNames r) requestedResourceName)"

section \<open>Observing a trace\<close>

text \<open>
  The four steps of the directory flow, read off a trace: each of \<open>getDN\<close>,
  \<open>validatePassword\<close> and \<open>getGroups\<close> announces itself with its own \<open>Debugf\<close> line
  before doing anything else, and the claims builder is the only caller of
  \<open>jwt.NewClaims\<close>.
\<close>

datatype step = ResolveDN | VerifyPassword | ResolveGroups | ClaimsBuilder

fun step_of :: "event \<Rightarrow> step list" where
  "step_of (EvDebugf fmt args) =
     (if fmt = ''Getting DN for: %s'' then [ResolveDN]
      else if fmt = ''Validating password for: %s'' then [VerifyPassword]
      else if fmt = ''Getting groups for: %s'' then [ResolveGroups]
      else [])"
| "step_of (EvNewClaims user) = [ClaimsBuilder]"
| "step_of _ = []"

definition steps :: "trace \<Rightarrow> step list" where
  "steps tr = concat (map step_of tr)"

text \<open>The credentials of every bind request of a trace, in order.\<close>

fun bind_of :: "event \<Rightarrow> (string \<times> string) list" where
  "bind_of (EvBind username password) = [(username, password)]"
| "bind_of _ = []"

definition binds :: "trace \<Rightarrow> (string \<times> string) list" where
  "binds tr = concat (map bind_of tr)"

section \<open>A small directory to run the providers against\<close>

definition example_provider :: ldap_Provider where
  "example_provider =
     \<lparr>ldap_ObjectMeta = \<lparr>Name = ''ldap'', Namespace = []\<rparr>,
      BindUsername = ''cn=svc'', BindPassword = ''secret'', StartTLS = True,
      URL = ''ldap://dir'', UserBaseDN = ''ou=people'', UserAttribute = ''uid'',
      UserClass = ''person'', GroupBaseDN = ''ou=groups'', GroupAttribute = ''cn'',
      GroupClass = ''group'', GroupUserDNAttribute = ''member''\<rparr>"

definition example_allowall :: allowall_Provider where
  "example_allowall = \<lparr>allowall_ObjectMeta = \<lparr>Name = ''allowall'', Namespace = []\<rparr>\<rparr>"

definition entry_alice :: Entry where
  "entry_alice = \<lparr>DN = ''uid=alice,ou=people'', EntryAttributes = []\<rparr>"

definition entry_admins :: Entry where
  "entry_admins = \<lparr>DN = ''cn=admins,ou=groups'', EntryAttributes = [(''cn'', [''admins''])]\<rparr>"

definition entry_ops :: Entry where
  "entry_ops = \<lparr>DN = ''cn=ops,ou=groups'', EntryAttributes = [(''cn'', [''ops''])]\<rparr>"

text \<open>
  The directory knows one user, \<open>alice\<close>, member of two groups; a search for \<open>dup\<close>
  matches twice. Binding works for the service account and for alice's password; carol's
  account is locked.
\<close>

definition example_bind :: "trace \<Rightarrow> string \<Rightarrow> string \<Rightarrow> error option" where
  "example_bind t username password =
     (if username = ''cn=svc'' \<and> password = ''secret'' then None
      else if username = ''uid=alice,ou=people'' \<and> password = ''wonderland'' then None
      else if username = ''uid=carol,ou=people'' then Some (LdapError 53 ''Unwilling To Perform'')
      else Some (LdapError 49 ''Invalid Credentials''))"

definition example_search :: "trace \<Rightarrow> SearchRequest \<Rightarrow> error + Entry list" where
  "example_search t req =
     (if Filter req = ''(&(objectClass=person)(uid=alice))'' then Inr [entry_alice]
      else if Filter req = ''(&(objectClass=person)(uid=dup))'' then Inr [entry_alice, entry_alice]
      else if Filter req = ''(&(objectClass=group)(member=uid=alice,ou=people))''
      then Inr [entry_admins, entry_ops]
      else Inr [])"

definition example_attribute :: "Entry \<Rightarrow> string \<Rightarrow> string" where
  "example_attribute e a =
     (case map_of (EntryAttributes e) a of Some (v # vs) \<Rightarrow> v | _ \<Rightarrow> [])"

definition example_newclaims :: "trace \<Rightarrow> User \<Rightarrow> Claims option \<times> error option" where
  "example_newclaims t user =
     (Some \<lparr>claims_Subject = Username user, claims_Groups = Groups user,
            Provider = \<lparr>ProviderID = [], UserID = []\<rparr>\<rparr>, None)"

definition example_world :: world where
  "example_world =
     \<lparr>dial_reply = (\<lambda>t url tmo. None), tls_reply = (\<lambda>t insecure. None),
      bind_reply = example_bind, search_reply = example_search,
      GetAttributeValue = example_attribute, newclaims_reply = example_newclaims\<rparr>"

text \<open>The same directory after alice's password was changed.\<close>

definition changed_bind :: "trace \<Rightarrow> string \<Rightarrow> string \<Rightarrow> error option" where
  "changed_bind t username password =
     (if username = ''cn=svc'' \<and> password = ''secret'' then None
      else Some (LdapError 49 ''Invalid Credentials''))"

text \<open>A jwt package whose \<open>NewClaims\<close> fails, handing back a nil pointer with the error.\<close>

definition failing_newclaims :: "trace \<Rightarrow> User \<Rightarrow> Claims option \<times> error option" where
  "failing_newclaims t user = (None, Some (errors_New ''no entropy''))"

text \<open>The same failure, but with a half-built claims value beside the error.\<close>

definition partial_newclaims :: "trace \<Rightarrow> User \<Rightarrow> Claims option \<times> error option" where
  "partial_newclaims t user =
     (Some \<lparr>claims_Subject = Username user, claims_Groups = [],
            Provider = \<lparr>ProviderID = [], UserID = []\<rparr>\<rparr>,
      Some (errors_New ''no entropy''))"

section \<open>Facts about the environment calls and the trace\<close>

lemmas env_calls =
  Debugf_def DialURL_def conn_StartTLS_def conn_Bind_def conn_Search_def conn_Close_def
  jwt_NewClaims_def

lemmas example_directory =
  example_provider_def example_world_def example_bind_def example_search_def
  example_attribute_def example_newclaims_def entry_alice_def entry_admins_def entry_ops_def
  search_filter_def userSearchRequest_def groupSearchRequest_def timeout_def

lemma getDN_steps: "getDN p w u tr = (r, t) \<Longrightarrow> steps t = steps tr @ [ResolveDN]"
  unfolding getDN_def getDN_conn_def
  by (auto simp: env_calls steps_def split: prod.splits option.splits sum.splits if_splits)

lemma validatePassword_steps:
  "validatePassword p w dn pw tr = (r, t) \<Longrightarrow> steps t = steps tr @ [VerifyPassword]"
  unfolding validatePassword_def validatePassword_conn_def
  by (auto simp: env_calls steps_def split: prod.splits option.splits if_splits)

lemma getGroups_steps: "getGroups p w dn tr = (r, t) \<Longrightarrow> steps t = steps tr @ [ResolveGroups]"
  unfolding getGroups_def getGroups_conn_def
  by (auto simp: env_calls steps_def Let_def split: prod.splits option.splits sum.splits if_splits)

lemma ldap_claims_steps:
  "steps (snd (ldap_claims p w u gs tr)) = steps tr @ [ClaimsBuilder]"
  unfolding ldap_claims_def
  by (auto simp: env_calls steps_def Let_def split: prod.splits option.splits)

lemma steps_Authenticating: "steps (Debugf ''Authenticating: %s'' a tr) = steps tr"
  by (simp add: Debugf_def steps_def)

lemma steps_Refreshing: "steps (Debugf ''Refreshing: %s'' a tr) = steps tr"
  by (simp add: Debugf_def steps_def)

section \<open>The policy rule matcher\<close>

lemma resource_loop_iff:
  "resource_loop rs x = (ResourceAll \<in> set rs \<or> x \<in> set rs)"
  by (induction rs) auto

lemma name_loop_iff: "name_loop ns n = (n \<in> set ns)"
  by (induction ns) auto

text \<open>The cases of \<open>TestRuleResourceMatches\<close> and \<open>TestRuleResourceNameMatches\<close>.\<close>

lemma TestRuleResourceMatches:
  "ResourceMatches \<lparr>Verbs = [], Resources = [], ResourceNames = []\<rparr> ''checks'' = False"
  "ResourceMatches \<lparr>Verbs = [], Resources = [ResourceAll], ResourceNames = []\<rparr> ''checks'' = True"
  "ResourceMatches \<lparr>Verbs = [], Resources = [''checks''], ResourceNames = []\<rparr> ''events'' = False"
  "ResourceMatches \<lparr>Verbs = [], Resources = [''checks'', ''events''], ResourceNames = []\<rparr> ''events''
     = True"
  by (simp_all add: ResourceMatches_def ResourceAll_def)

lemma TestRuleResourceNameMatches:
  "ResourceNameMatches \<lparr>Verbs = [], Resources = [], ResourceNames = []\<rparr> ''checks'' = True"
  "ResourceNameMatches \<lparr>Verbs = [], Resources = [], ResourceNames = [''foo'']\<rparr> [] = False"
  "ResourceNameMatches \<lparr>Verbs = [], Resources = [], ResourceNames = [''foo'']\<rparr> ''bar'' = False"
  "ResourceNameMatches \<lparr>Verbs = [], Resources = [], ResourceNames = [''foo'', ''bar'']\<rparr> ''bar''
     = True"
  by (simp_all add: ResourceNameMatches_def)

text \<open>
  C1. A rule matches a requested resource exactly when its resource list holds the
  all-resources wildcard or the requested resource itself; a rule with no resources
  matches nothing.
\<close>

theorem ResourceMatches_wildcard_or_member:
  "ResourceMatches r x = (ResourceAll \<in> set (Resources r) \<or> x \<in> set (Resources r)) \<and>
   \<not> ResourceMatches (r\<lparr>Resources := []\<rparr>) x"
  by (simp add: ResourceMatches_def resource_loop_iff)

text \<open>
  C2. A rule without resource names matches every requested name, the empty name
  included; a rule with resource names matches exactly the names it lists.
\<close>

theorem ResourceNameMatches_empty_or_member:
  "(ResourceNames r = [] \<longrightarrow> ResourceNameMatches r n) \<and>
   (ResourceNames r \<noteq> [] \<longrightarrow> ResourceNameMatches r n = (n \<in> set (ResourceNames r)))"
  by (simp add: ResourceNameMatches_def name_loop_iff)

theorem ResourceNameMatches_empty_or_member_witness:
  "ResourceNameMatches \<lparr>Verbs = [], Resources = [], ResourceNames = []\<rparr> [] \<and>
   ResourceNameMatches \<lparr>Verbs = [], Resources = [], ResourceNames = [''foo'', ''bar'']\<rparr> ''bar'' \<and>
   \<not> ResourceNameMatches \<lparr>Verbs = [], Resources = [], ResourceNames = [''foo'']\<rparr> []"
  using ResourceNameMatches_empty_or_member
          [of "\<lparr>Verbs = [], Resources = [], ResourceNames = []\<rparr>" "[]"]
        ResourceNameMatches_empty_or_member
          [of "\<lparr>Verbs = [], Resources = [], ResourceNames = [''foo'', ''bar'']\<rparr>" "''bar''"]
        ResourceNameMatches_empty_or_member
          [of "\<lparr>Verbs = [], Resources = [], ResourceNames = [''foo'']\<rparr>" "[]"]
  by simp

section \<open>The directory flow\<close>

text \<open>
  C4. \<open>getDN\<close> hands back a distinguished name exactly when the user search is reached
  (dial, optional StartTLS and service bind went through) and answers with exactly one
  entry, and the name is that entry's. When the search answers with any other number of
  entries, none or several, \<open>getDN\<close> fails with one and the same error.
\<close>

theorem getDN_exactly_one_entry:
  "(fst (getDN p w username tr) = Inr dn) =
     (\<exists>ta tb tc td e.
        DialURL w (URL p) timeout (Debugf ''Getting DN for: %s'' [ArgString username] tr)
          = (None, ta) \<and>
        (if StartTLS p then conn_StartTLS w True ta else (None, ta)) = (None, tb) \<and>
        conn_Bind w (BindUsername p) (BindPassword p) tb = (None, tc) \<and>
        conn_Search w (userSearchRequest p username) tc = (Inr [e], td) \<and>
        DN e = dn) \<and>
   (DialURL w (URL p) timeout (Debugf ''Getting DN for: %s'' [ArgString username] tr)
          = (None, ta) \<and>
        (if StartTLS p then conn_StartTLS w True ta else (None, ta)) = (None, tb) \<and>
        conn_Bind w (BindUsername p) (BindPassword p) tb = (None, tc) \<and>
        conn_Search w (userSearchRequest p username) tc = (Inr entries, td) \<and>
        length entries \<noteq> 1 \<longrightarrow>
        fst (getDN p w username tr) =
          Inl (errors_New ''User does not exist or too many entries returned''))"
  unfolding getDN_def getDN_conn_def
  by (auto simp: env_calls length_Suc_conv split: prod.splits option.splits sum.splits if_splits)

theorem getDN_exactly_one_entry_witness:
  "fst (getDN example_provider example_world ''alice'' []) = Inr ''uid=alice,ou=people'' \<and>
   fst (getDN example_provider example_world ''bob'' []) =
     Inl (errors_New ''User does not exist or too many entries returned'') \<and>
   fst (getDN example_provider example_world ''dup'' []) =
     Inl (errors_New ''User does not exist or too many entries returned'')"
proof (intro conjI)
  show "fst (getDN example_provider example_world ''alice'' []) = Inr ''uid=alice,ou=people''"
    using getDN_exactly_one_entry
            [of example_provider example_world "''alice''" "[]" "''uid=alice,ou=people''"]
    by (simp add: env_calls example_directory)
next
  have "length ([] :: Entry list) \<noteq> 1" by simp
  then show "fst (getDN example_provider example_world ''bob'' []) =
     Inl (errors_New ''User does not exist or too many entries returned'')"
    using getDN_exactly_one_entry
            [where p = example_provider and w = example_world and username = "''bob''"
               and tr = "[]" and dn = "[]", THEN conjunct2, rule_format,
             where ta = "[EvDebugf ''Getting DN for: %s'' [ArgString ''bob''],
                  EvDialURL ''ldap://dir'' timeout]"
               and tb = "[EvDebugf ''Getting DN for: %s'' [ArgString ''bob''],
                  EvDialURL ''ldap://dir'' timeout, EvStartTLS True]"
               and tc = "[EvDebugf ''Getting DN for: %s'' [ArgString ''bob''],
                  EvDialURL ''ldap://dir'' timeout, EvStartTLS True,
                  EvBind ''cn=svc'' ''secret'']"
               and td = "[EvDebugf ''Getting DN for: %s'' [ArgString ''bob''],
                  EvDialURL ''ldap://dir'' timeout, EvStartTLS True,
                  EvBind ''cn=svc'' ''secret'',
                  EvSearch (userSearchRequest example_provider ''bob'')]"
               and entries = "[]"]
    by (simp add: env_calls example_provider_def example_world_def example_bind_def
          example_search_def search_filter_def userSearchRequest_def)
next
  have "length [entry_alice, entry_alice] \<noteq> 1" by simp
  then show "fst (getDN example_provider example_world ''dup'' []) =
     Inl (errors_New ''User does not exist or too many entries returned'')"
    using getDN_exactly_one_entry
            [where p = example_provider and w = example_world and username = "''dup''"
               and tr = "[]" and dn = "[]", THEN conjunct2, rule_format,
             where ta = "[EvDebugf ''Getting DN for: %s'' [ArgString ''dup''],
                  EvDialURL ''ldap://dir'' timeout]"
               and tb = "[EvDebugf ''Getting DN for: %s'' [ArgString ''dup''],
                  EvDialURL ''ldap://dir'' timeout, EvStartTLS True]"
               and tc = "[EvDebugf ''Getting DN for: %s'' [ArgString ''dup''],
                  EvDialURL ''ldap://dir'' timeout, EvStartTLS True,
                  EvBind ''cn=svc'' ''secret'']"
               and td = "[EvDebugf ''Getting DN for: %s'' [ArgString ''dup''],
                  EvDialURL ''ldap://dir'' timeout, EvStartTLS True,
                  EvBind ''cn=svc'' ''secret'',
                  EvSearch (userSearchRequest example_provider ''dup'')]"
               and entries = "[entry_alice, entry_alice]"]
    by (simp add: env_calls example_provider_def example_world_def example_bind_def
          example_search_def search_filter_def userSearchRequest_def)
qed

lemmas run_example =
  ldap_Authenticate_def ldap_Refresh_def ldap_claims_def getGroups_def getGroups_conn_def
  validatePassword_def validatePassword_conn_def getDN_def getDN_conn_def ldap_Name_def
  ldap_Type_def env_calls example_directory Let_def

text \<open>
  C3. \<open>Authenticate\<close> runs \<open>getDN\<close>, \<open>validatePassword\<close>, \<open>getGroups\<close> and the
  claims builder in this order. The first of the three directory steps that returns an
  error ends the call: that error is returned with a nil claims pointer, and the trace
  ends where the failing step ended, so no later step was started. When the three went
  through, the call returns whatever the claims builder returns, its error included. A
  return without error therefore means that all four steps ran, in this order, and
  succeeded.
\<close>

theorem ldap_Authenticate_sequence:
  "(case getDN p w username (Debugf ''Authenticating: %s'' [ArgString username] tr) of
      (Inl err, ta) \<Rightarrow>
        ldap_Authenticate p w username password tr = (Returns (None, Some err), ta) \<and>
        steps ta = steps tr @ [ResolveDN]
    | (Inr dn, ta) \<Rightarrow>
        (case validatePassword p w dn password ta of
           (Some err, tb) \<Rightarrow>
             ldap_Authenticate p w username password tr = (Returns (None, Some err), tb) \<and>
             steps tb = steps tr @ [ResolveDN, VerifyPassword]
         | (None, tb) \<Rightarrow>
             (case getGroups p w dn tb of
                (Inl err, tc) \<Rightarrow>
                  ldap_Authenticate p w username password tr = (Returns (None, Some err), tc) \<and>
                  steps tc = steps tr @ [ResolveDN, VerifyPassword, ResolveGroups]
              | (Inr groups, tc) \<Rightarrow>
                  ldap_Authenticate p w username password tr =
                    ldap_claims p w username groups tc \<and>
                  steps (snd (ldap_claims p w username groups tc)) =
                    steps tr @ [ResolveDN, VerifyPassword, ResolveGroups, ClaimsBuilder]))) \<and>
   (ldap_Authenticate p w username password tr = (Returns (Some c, None), t) \<longrightarrow>
      steps t = steps tr @ [ResolveDN, VerifyPassword, ResolveGroups, ClaimsBuilder] \<and>
      (\<exists>dn ta tb groups tc.
         getDN p w username (Debugf ''Authenticating: %s'' [ArgString username] tr)
           = (Inr dn, ta) \<and>
         validatePassword p w dn password ta = (None, tb) \<and>
         getGroups p w dn tb = (Inr groups, tc) \<and>
         ldap_claims p w username groups tc = (Returns (Some c, None), t)))"
proof (intro conjI)
  show "(case getDN p w username (Debugf ''Authenticating: %s'' [ArgString username] tr) of
      (Inl err, ta) \<Rightarrow>
        ldap_Authenticate p w username password tr = (Returns (None, Some err), ta) \<and>
        steps ta = steps tr @ [ResolveDN]
    | (Inr dn, ta) \<Rightarrow>
        (case validatePassword p w dn password ta of
           (Some err, tb) \<Rightarrow>
             ldap_Authenticate p w username password tr = (Returns (None, Some err), tb) \<and>
             steps tb = steps tr @ [ResolveDN, VerifyPassword]
         | (None, tb) \<Rightarrow>
             (case getGroups p w dn tb of
                (Inl err, tc) \<Rightarrow>
                  ldap_Authenticate p w username password tr = (Returns (None, Some err), tc) \<and>
                  steps tc = steps tr @ [ResolveDN, VerifyPassword, ResolveGroups]
              | (Inr groups, tc) \<Rightarrow>
                  ldap_Authenticate p w username password tr =
                    ldap_claims p w username groups tc \<and>
                  steps (snd (ldap_claims p w username groups tc)) =
                    steps tr @ [ResolveDN, VerifyPassword, ResolveGroups, ClaimsBuilder])))"
    by (auto simp: ldap_Authenticate_def steps_Authenticating ldap_claims_steps
          dest!: getDN_steps validatePassword_steps getGroups_steps
          split: prod.splits option.splits sum.splits)
next
  show "ldap_Authenticate p w username password tr = (Returns (Some c, None), t) \<longrightarrow>
      steps t = steps tr @ [ResolveDN, VerifyPassword, ResolveGroups, ClaimsBuilder] \<and>
      (\<exists>dn ta tb groups tc.
         getDN p w username (Debugf ''Authenticating: %s'' [ArgString username] tr)
           = (Inr dn, ta) \<and>
         validatePassword p w dn password ta = (None, tb) \<and>
         getGroups p w dn tb = (Inr groups, tc) \<and>
         ldap_claims p w username groups tc = (Returns (Some c, None), t))"
  proof
    assume ok: "ldap_Authenticate p w username password tr = (Returns (Some c, None), t)"
    then obtain dn ta tb groups tc where
      s1: "getDN p w username (Debugf ''Authenticating: %s'' [ArgString username] tr)
             = (Inr dn, ta)" and
      s2: "validatePassword p w dn password ta = (None, tb)" and
      s3: "getGroups p w dn tb = (Inr groups, tc)" and
      s4: "ldap_claims p w username groups tc = (Returns (Some c, None), t)"
      by (auto simp: ldap_Authenticate_def split: prod.splits option.splits sum.splits)
    have "steps t = steps (snd (ldap_claims p w username groups tc))"
      using s4 by simp
    also have "\<dots> = steps tc @ [ClaimsBuilder]"
      by (rule ldap_claims_steps)
    also have "steps tc = steps tb @ [ResolveGroups]"
      using s3 by (rule getGroups_steps)
    also have "steps tb = steps ta @ [VerifyPassword]"
      using s2 by (rule validatePassword_steps)
    also have "steps ta = steps tr @ [ResolveDN]"
      using getDN_steps [OF s1] by (simp add: steps_Authenticating)
    finally have "steps t = steps tr @ [ResolveDN, VerifyPassword, ResolveGroups, ClaimsBuilder]"
      by simp
    with s1 s2 s3 s4 show
      "steps t = steps tr @ [ResolveDN, VerifyPassword, ResolveGroups, ClaimsBuilder] \<and>
       (\<exists>dn ta tb groups tc.
         getDN p w username (Debugf ''Authenticating: %s'' [ArgString username] tr)
           = (Inr dn, ta) \<and>
         validatePassword p w dn password ta = (None, tb) \<and>
         getGroups p w dn tb = (Inr groups, tc) \<and>
         ldap_claims p w username groups tc = (Returns (Some c, None), t))"
      by blast
  qed
qed

text \<open>
  Alice logs in with her password and gets her claims after all four steps; with a wrong
  password the call ends at the second step with the directory's error.
\<close>

theorem ldap_Authenticate_sequence_witness:
  "fst (ldap_Authenticate example_provider example_world ''alice'' ''wonderland'' []) =
     Returns (Some \<lparr>claims_Subject = ''alice'', claims_Groups = [''admins'', ''ops''],
                     Provider = \<lparr>ProviderID = ''ldap'', UserID = ''alice''\<rparr>\<rparr>, None) \<and>
   steps (snd (ldap_Authenticate example_provider example_world ''alice'' ''wonderland'' [])) =
     [ResolveDN, VerifyPassword, ResolveGroups, ClaimsBuilder] \<and>
   ldap_Authenticate example_provider example_world ''alice'' ''guess'' [] =
     (Returns (None, Some (LdapError 49 ''Invalid Credentials'')),
      [EvDebugf ''Authenticating: %s'' [ArgString ''alice''],
       EvDebugf ''Getting DN for: %s'' [ArgString ''alice''],
       EvDialURL ''ldap://dir'' timeout, EvStartTLS True, EvBind ''cn=svc'' ''secret'',
       EvSearch (userSearchRequest example_provider ''alice''), EvClose,
       EvDebugf ''Validating password for: %s'' [ArgString ''uid=alice,ou=people''],
       EvDialURL ''ldap://dir'' timeout, EvStartTLS True,
       EvBind ''uid=alice,ou=people'' ''guess'', EvClose])"
proof (intro conjI)
  let ?c = "\<lparr>claims_Subject = ''alice'', claims_Groups = [''admins'', ''ops''],
             Provider = \<lparr>ProviderID = ''ldap'', UserID = ''alice''\<rparr>\<rparr>"
  let ?run = "ldap_Authenticate example_provider example_world ''alice'' ''wonderland'' []"
  show r: "fst ?run = Returns (Some ?c, None)"
    by (simp add: run_example)
  then have "?run = (Returns (Some ?c, None), snd ?run)"
    by (simp add: prod_eq_iff)
  then have "steps (snd ?run) = steps [] @ [ResolveDN, VerifyPassword, ResolveGroups, ClaimsBuilder]"
    using ldap_Authenticate_sequence
      [where p = example_provider and w = example_world and username = "''alice''"
         and password = "''wonderland''" and tr = "[]" and c = ?c and t = "snd ?run"]
    by blast
  then show "steps (snd ?run) = [ResolveDN, VerifyPassword, ResolveGroups, ClaimsBuilder]"
    by (simp add: steps_def)
next
  show "ldap_Authenticate example_provider example_world ''alice'' ''guess'' [] =
     (Returns (None, Some (LdapError 49 ''Invalid Credentials'')),
      [EvDebugf ''Authenticating: %s'' [ArgString ''alice''],
       EvDebugf ''Getting DN for: %s'' [ArgString ''alice''],
       EvDialURL ''ldap://dir'' timeout, EvStartTLS True, EvBind ''cn=svc'' ''secret'',
       EvSearch (userSearchRequest example_provider ''alice''), EvClose,
       EvDebugf ''Validating password for: %s'' [ArgString ''uid=alice,ou=people''],
       EvDialURL ''ldap://dir'' timeout, EvStartTLS True,
       EvBind ''uid=alice,ou=people'' ''guess'', EvClose])"
    by (simp add: run_example)
qed

text \<open>
  C5, as the code has it. \<open>validatePassword\<close> returns nil exactly when dial, optional
  StartTLS and the bind as the user all went through. A failed bind is not turned into
  one uniform outcome: the error of the bind call is returned as it is, so different
  causes stay different for the caller.
\<close>

theorem validatePassword_bind_error_verbatim:
  "(fst (validatePassword p w dn password tr) = None) =
     (\<exists>ta tb tc.
        DialURL w (URL p) timeout (Debugf ''Validating password for: %s'' [ArgString dn] tr)
          = (None, ta) \<and>
        (if StartTLS p then conn_StartTLS w True ta else (None, ta)) = (None, tb) \<and>
        conn_Bind w dn password tb = (None, tc)) \<and>
   (DialURL w (URL p) timeout (Debugf ''Validating password for: %s'' [ArgString dn] tr)
      = (None, ta) \<and>
    (if StartTLS p then conn_StartTLS w True ta else (None, ta)) = (None, tb) \<and>
    conn_Bind w dn password tb = (Some err, tc) \<longrightarrow>
    fst (validatePassword p w dn password tr) = Some err)"
  unfolding validatePassword_def validatePassword_conn_def
  by (auto simp: env_calls split: prod.splits option.splits if_splits)

theorem validatePassword_bind_error_verbatim_witness:
  "fst (validatePassword example_provider example_world ''uid=carol,ou=people'' ''guess'' []) =
     Some (LdapError 53 ''Unwilling To Perform'')"
  using validatePassword_bind_error_verbatim
    [where p = example_provider and w = example_world and dn = "''uid=carol,ou=people''"
       and password = "''guess''" and tr = "[]"
       and ta = "[EvDebugf ''Validating password for: %s'' [ArgString ''uid=carol,ou=people''],
                  EvDialURL ''ldap://dir'' timeout]"
       and tb = "[EvDebugf ''Validating password for: %s'' [ArgString ''uid=carol,ou=people''],
                  EvDialURL ''ldap://dir'' timeout, EvStartTLS True]"
       and tc = "[EvDebugf ''Validating password for: %s'' [ArgString ''uid=carol,ou=people''],
                  EvDialURL ''ldap://dir'' timeout, EvStartTLS True,
                  EvBind ''uid=carol,ou=people'' ''guess'']"
       and err = "LdapError 53 ''Unwilling To Perform''",
     THEN conjunct2]
  by (simp add: env_calls example_provider_def example_world_def example_bind_def)

text \<open>
  Two failed binds against the same directory, a wrong password and a locked account:
  \<open>validatePassword\<close> reports them with two different errors.
\<close>

theorem validatePassword_outcomes_differ:
  "fst (validatePassword example_provider example_world ''uid=alice,ou=people'' ''guess'' []) =
     Some (LdapError 49 ''Invalid Credentials'') \<and>
   fst (validatePassword example_provider example_world ''uid=carol,ou=people'' ''guess'' []) =
     Some (LdapError 53 ''Unwilling To Perform'') \<and>
   fst (validatePassword example_provider example_world ''uid=alice,ou=people'' ''guess'' []) \<noteq>
   fst (validatePassword example_provider example_world ''uid=carol,ou=people'' ''guess'' [])"
  by (simp add: run_example)

lemma collect_groups_map:
  "collect_groups w attr groups entries =
     groups @ map (\<lambda>e. GetAttributeValue w e attr) entries"
  by (induction entries arbitrary: groups) auto

text \<open>
  C9. When the group search is reached and succeeds, \<open>getGroups\<close> returns, without
  error, the value of the configured group-name attribute of every entry found, in the
  order of the entries; with no entry found that is the empty list.
\<close>

theorem getGroups_attribute_of_every_entry:
  "(DialURL w (URL p) timeout (Debugf ''Getting groups for: %s'' [ArgString userdn] tr)
      = (None, ta) \<and>
    (if StartTLS p then conn_StartTLS w True ta else (None, ta)) = (None, tb) \<and>
    conn_Bind w (BindUsername p) (BindPassword p) tb = (None, tc) \<and>
    conn_Search w (groupSearchRequest p userdn) tc = (Inr entries, td) \<longrightarrow>
    fst (getGroups p w userdn tr) =
      Inr (map (\<lambda>entry. GetAttributeValue w entry (GroupAttribute p)) entries) \<and>
    (entries = [] \<longrightarrow> fst (getGroups p w userdn tr) = Inr []))"
  unfolding getGroups_def getGroups_conn_def
  by (auto simp: env_calls collect_groups_map Let_def split: prod.splits option.splits if_splits)

theorem getGroups_attribute_of_every_entry_witness:
  "fst (getGroups example_provider example_world ''uid=alice,ou=people'' []) =
     Inr [''admins'', ''ops''] \<and>
   fst (getGroups example_provider example_world ''uid=bob,ou=people'' []) = Inr []"
proof (intro conjI)
  show "fst (getGroups example_provider example_world ''uid=alice,ou=people'' []) =
     Inr [''admins'', ''ops'']"
    using getGroups_attribute_of_every_entry
      [where p = example_provider and w = example_world and userdn = "''uid=alice,ou=people''"
         and tr = "[]"
         and ta = "[EvDebugf ''Getting groups for: %s'' [ArgString ''uid=alice,ou=people''],
                    EvDialURL ''ldap://dir'' timeout]"
         and tb = "[EvDebugf ''Getting groups for: %s'' [ArgString ''uid=alice,ou=people''],
                    EvDialURL ''ldap://dir'' timeout, EvStartTLS True]"
         and tc = "[EvDebugf ''Getting groups for: %s'' [ArgString ''uid=alice,ou=people''],
                    EvDialURL ''ldap://dir'' timeout, EvStartTLS True,
                    EvBind ''cn=svc'' ''secret'']"
         and td = "[EvDebugf ''Getting groups for: %s'' [ArgString ''uid=alice,ou=people''],
                    EvDialURL ''ldap://dir'' timeout, EvStartTLS True,
                    EvBind ''cn=svc'' ''secret'',
                    EvSearch (groupSearchRequest example_provider ''uid=alice,ou=people'')]"
         and entries = "[entry_admins, entry_ops]"]
    by (simp add: env_calls example_provider_def example_world_def example_bind_def
          example_search_def search_filter_def groupSearchRequest_def example_attribute_def
          entry_admins_def entry_ops_def)
next
  show "fst (getGroups example_provider example_world ''uid=bob,ou=people'' []) = Inr []"
    using getGroups_attribute_of_every_entry
      [where p = example_provider and w = example_world and userdn = "''uid=bob,ou=people''"
         and tr = "[]"
         and ta = "[EvDebugf ''Getting groups for: %s'' [ArgString ''uid=bob,ou=people''],
                    EvDialURL ''ldap://dir'' timeout]"
         and tb = "[EvDebugf ''Getting groups for: %s'' [ArgString ''uid=bob,ou=people''],
                    EvDialURL ''ldap://dir'' timeout, EvStartTLS True]"
         and tc = "[EvDebugf ''Getting groups for: %s'' [ArgString ''uid=bob,ou=people''],
                    EvDialURL ''ldap://dir'' timeout, EvStartTLS True,
                    EvBind ''cn=svc'' ''secret'']"
         and td = "[EvDebugf ''Getting groups for: %s'' [ArgString ''uid=bob,ou=people''],
                    EvDialURL ''ldap://dir'' timeout, EvStartTLS True,
                    EvBind ''cn=svc'' ''secret'',
                    EvSearch (groupSearchRequest example_provider ''uid=bob,ou=people'')]"
         and entries = "[]"]
    by (simp add: env_calls example_provider_def example_world_def example_bind_def
          example_search_def search_filter_def groupSearchRequest_def)
qed

section \<open>Refresh\<close>

lemma getDN_binds:
  "getDN p w u tr = (r, t) \<Longrightarrow>
     \<exists>bs. binds t = binds tr @ bs \<and> set bs \<subseteq> {(BindUsername p, BindPassword p)}"
  unfolding getDN_def getDN_conn_def
  by (auto simp: env_calls binds_def split: prod.splits option.splits sum.splits if_splits)

lemma getGroups_binds:
  "getGroups p w dn tr = (r, t) \<Longrightarrow>
     \<exists>bs. binds t = binds tr @ bs \<and> set bs \<subseteq> {(BindUsername p, BindPassword p)}"
  unfolding getGroups_def getGroups_conn_def
  by (auto simp: env_calls binds_def Let_def split: prod.splits option.splits sum.splits if_splits)

lemma ldap_claims_binds: "binds (snd (ldap_claims p w u gs tr)) = binds tr"
  unfolding ldap_claims_def
  by (auto simp: env_calls binds_def Let_def split: prod.splits option.splits)

lemma binds_Refreshing: "binds (Debugf fmt a tr) = binds tr"
  by (simp add: Debugf_def binds_def)

text \<open>
  Neither \<open>getDN\<close> nor \<open>getGroups\<close> nor the claims builder asks the directory about any
  credentials but the service account's.
\<close>

lemma getDN_other_binds:
  "\<forall>t. b t (BindUsername p) (BindPassword p) = bind_reply w t (BindUsername p) (BindPassword p)
   \<Longrightarrow> getDN p (w\<lparr>bind_reply := b\<rparr>) u tr = getDN p w u tr"
  unfolding getDN_def getDN_conn_def
  by (simp add: env_calls cong: prod.case_cong option.case_cong sum.case_cong if_cong)

lemma getGroups_other_binds:
  "\<forall>t. b t (BindUsername p) (BindPassword p) = bind_reply w t (BindUsername p) (BindPassword p)
   \<Longrightarrow> getGroups p (w\<lparr>bind_reply := b\<rparr>) dn tr = getGroups p w dn tr"
  unfolding getGroups_def getGroups_conn_def
  by (simp add: env_calls collect_groups_map
        cong: prod.case_cong option.case_cong sum.case_cong if_cong)

lemma ldap_claims_other_binds:
  "ldap_claims p (w\<lparr>bind_reply := b\<rparr>) u gs tr = ldap_claims p w u gs tr"
  unfolding ldap_claims_def
  by (simp add: env_calls cong: prod.case_cong option.case_cong)

lemma ldap_Refresh_unfold:
  "(case getDN p w (UserID (Provider c))
           (Debugf ''Refreshing: %s'' [ArgString (UserID (Provider c))] tr) of
      (Inl err, ta) \<Rightarrow> ldap_Refresh p w (Some c) tr = (Returns (None, Some err), ta)
    | (Inr dn, ta) \<Rightarrow>
        (case getGroups p w dn ta of
           (Inl err, tb) \<Rightarrow> ldap_Refresh p w (Some c) tr = (Returns (None, Some err), tb)
         | (Inr groups, tb) \<Rightarrow>
             ldap_Refresh p w (Some c) tr = ldap_claims p w (UserID (Provider c)) groups tb))"
  by (simp add: ldap_Refresh_def split: prod.splits sum.splits)

lemma ldap_Refresh_steps:
  "\<exists>new. steps (snd (ldap_Refresh p w (Some c) tr)) = steps tr @ new \<and>
         (new = [ResolveDN] \<or> new = [ResolveDN, ResolveGroups] \<or>
          new = [ResolveDN, ResolveGroups, ClaimsBuilder])"
  by (auto simp: ldap_Refresh_def steps_Refreshing ldap_claims_steps
        dest!: getDN_steps getGroups_steps
        split: prod.splits sum.splits)

lemma ldap_Refresh_binds:
  "\<exists>bs. binds (snd (ldap_Refresh p w (Some c) tr)) = binds tr @ bs \<and>
        set bs \<subseteq> {(BindUsername p, BindPassword p)}"
proof (cases "getDN p w (UserID (Provider c))
                (Debugf ''Refreshing: %s'' [ArgString (UserID (Provider c))] tr)")
  case (Pair r ta)
  from getDN_binds [OF Pair] obtain bs where
    bs: "binds ta = binds tr @ bs" "set bs \<subseteq> {(BindUsername p, BindPassword p)}"
    by (auto simp: binds_Refreshing)
  show ?thesis
  proof (cases r)
    case (Inl err)
    with Pair bs show ?thesis by (simp add: ldap_Refresh_def)
  next
    case (Inr dn)
    obtain r' tb where g: "getGroups p w dn ta = (r', tb)" by (cases "getGroups p w dn ta")
    from getGroups_binds [OF g] obtain bs' where
      bs': "binds tb = binds ta @ bs'" "set bs' \<subseteq> {(BindUsername p, BindPassword p)}"
      by auto
    have both: "binds tb = binds tr @ (bs @ bs')"
      "set (bs @ bs') \<subseteq> {(BindUsername p, BindPassword p)}"
      using bs bs' by auto
    show ?thesis
    proof (cases r')
      case (Inl err)
      with Pair Inr g both show ?thesis
        by (simp only: ldap_Refresh_def option.case prod.case sum.case snd_conv) blast
    next
      case (Inr groups)
      with Pair \<open>r = Inr dn\<close> g both show ?thesis
        by (simp only: ldap_Refresh_def option.case prod.case sum.case ldap_claims_binds) blast
    qed
  qed
qed

lemma ldap_Refresh_other_binds:
  assumes "\<forall>t. b t (BindUsername p) (BindPassword p)
                 = bind_reply w t (BindUsername p) (BindPassword p)"
  shows "ldap_Refresh p (w\<lparr>bind_reply := b\<rparr>) claims tr = ldap_Refresh p w claims tr"
  by (simp add: ldap_Refresh_def
        getDN_other_binds [where b = b and p = p and w = w, OF assms]
        getGroups_other_binds [where b = b and p = p and w = w, OF assms]
        ldap_claims_other_binds cong: prod.case_cong option.case_cong sum.case_cong)

text \<open>
  C6. \<open>Refresh\<close>, for the user identifier of the presented claims, runs \<open>getDN\<close>, then
  \<open>getGroups\<close>, then the claims builder, ending at the first error. \<open>validatePassword\<close>
  is never started, every bind request \<open>Refresh\<close> sends carries the service account's
  credentials, and the result does not depend on how the directory would answer a bind
  with any other credentials: a changed user password changes nothing.
\<close>

theorem ldap_Refresh_never_verifies_password:
  "(case getDN p w (UserID (Provider c))
           (Debugf ''Refreshing: %s'' [ArgString (UserID (Provider c))] tr) of
      (Inl err, ta) \<Rightarrow> ldap_Refresh p w (Some c) tr = (Returns (None, Some err), ta)
    | (Inr dn, ta) \<Rightarrow>
        (case getGroups p w dn ta of
           (Inl err, tb) \<Rightarrow> ldap_Refresh p w (Some c) tr = (Returns (None, Some err), tb)
         | (Inr groups, tb) \<Rightarrow>
             ldap_Refresh p w (Some c) tr = ldap_claims p w (UserID (Provider c)) groups tb)) \<and>
   (\<exists>new. steps (snd (ldap_Refresh p w (Some c) tr)) = steps tr @ new \<and>
          (new = [ResolveDN] \<or> new = [ResolveDN, ResolveGroups] \<or>
           new = [ResolveDN, ResolveGroups, ClaimsBuilder]) \<and>
          VerifyPassword \<notin> set new) \<and>
   (\<exists>bs. binds (snd (ldap_Refresh p w (Some c) tr)) = binds tr @ bs \<and>
         set bs \<subseteq> {(BindUsername p, BindPassword p)}) \<and>
   ((\<forall>t. b t (BindUsername p) (BindPassword p)
           = bind_reply w t (BindUsername p) (BindPassword p)) \<longrightarrow>
    ldap_Refresh p (w\<lparr>bind_reply := b\<rparr>) (Some c) tr = ldap_Refresh p w (Some c) tr)"
proof (intro conjI)
  show "\<exists>new. steps (snd (ldap_Refresh p w (Some c) tr)) = steps tr @ new \<and>
          (new = [ResolveDN] \<or> new = [ResolveDN, ResolveGroups] \<or>
           new = [ResolveDN, ResolveGroups, ClaimsBuilder]) \<and>
          VerifyPassword \<notin> set new"
    using ldap_Refresh_steps [of p w c tr] by auto
qed (auto simp: ldap_Refresh_unfold ldap_Refresh_binds ldap_Refresh_other_binds)

text \<open>
  Alice's password has been changed in the directory since she logged in; her claims are
  refreshed all the same, with her current groups.
\<close>

theorem ldap_Refresh_never_verifies_password_witness:
  "fst (ldap_Refresh example_provider (example_world\<lparr>bind_reply := changed_bind\<rparr>)
         (Some \<lparr>claims_Subject = ''alice'', claims_Groups = [''admins''],
                Provider = \<lparr>ProviderID = ''ldap'', UserID = ''alice''\<rparr>\<rparr>) []) =
     Returns (Some \<lparr>claims_Subject = ''alice'', claims_Groups = [''admins'', ''ops''],
                     Provider = \<lparr>ProviderID = ''ldap'', UserID = ''alice''\<rparr>\<rparr>, None)"
proof -
  let ?c = "\<lparr>claims_Subject = ''alice'', claims_Groups = [''admins''],
             Provider = \<lparr>ProviderID = ''ldap'', UserID = ''alice''\<rparr>\<rparr>"
  have same: "\<forall>t. changed_bind t (BindUsername example_provider) (BindPassword example_provider)
           = bind_reply example_world t (BindUsername example_provider)
               (BindPassword example_provider)"
    by (simp add: changed_bind_def example_provider_def example_world_def example_bind_def)
  have "ldap_Refresh example_provider (example_world\<lparr>bind_reply := changed_bind\<rparr>) (Some ?c) []
          = ldap_Refresh example_provider example_world (Some ?c) []"
    using ldap_Refresh_never_verifies_password
      [where p = example_provider and w = example_world and c = ?c and tr = "[]"
         and b = changed_bind] same
    by blast
  then show ?thesis
    by (simp add: run_example)
qed

section \<open>The claims builders\<close>

text \<open>
  A builder that returns at all returns a claims value, whatever the error beside it:
  with the provider's name, with the user name it was given as user identifier, and
  after handing \<open>jwt.NewClaims\<close> a user of that name who is not disabled.
\<close>

lemma ldap_claims_returned:
  "ldap_claims p w u gs tr = (Returns (x, err), t) \<Longrightarrow>
     (\<exists>c. x = Some c \<and> ProviderID (Provider c) = ldap_Name p \<and> UserID (Provider c) = u) \<and>
     t = tr @ [EvNewClaims \<lparr>Username = u, Groups = gs, Disabled = False\<rparr>]"
  unfolding ldap_claims_def
  by (auto simp: env_calls Let_def split: prod.splits option.splits)

lemma allowall_claims_returned:
  "allowall_claims p w u tr = (Returns (x, err), t) \<Longrightarrow>
     (\<exists>c. x = Some c \<and> ProviderID (Provider c) = allowall_Name p \<and> UserID (Provider c) = u) \<and>
     t = tr @ [EvNewClaims \<lparr>Username = u, Groups = [''cluster-admins''], Disabled = False\<rparr>]"
  unfolding allowall_claims_def
  by (auto simp: env_calls Let_def split: prod.splits option.splits)

text \<open>
  C7. Whenever \<open>Authenticate\<close> or \<open>Refresh\<close> of either provider returns without error,
  it returns claims (never a nil pointer), and these claims name the provider
  (\<open>Name()\<close>) and, as the user identifier, the user name that was authenticated (for
  \<open>Refresh\<close>: the user identifier of the presented claims); and the last thing the call
  did was to hand \<open>jwt.NewClaims\<close> a user of that name who is not disabled.
\<close>

theorem successful_claims_name_provider_and_user:
  "(ldap_Authenticate lp w username password tr = (Returns (x, None), t) \<longrightarrow>
      (\<exists>c. x = Some c \<and> ProviderID (Provider c) = ldap_Name lp \<and>
           UserID (Provider c) = username) \<and>
      (\<exists>t' user. t = t' @ [EvNewClaims user] \<and> Username user = username \<and> \<not> Disabled user)) \<and>
   (ldap_Refresh lp w (Some old) tr = (Returns (x, None), t) \<longrightarrow>
      (\<exists>c. x = Some c \<and> ProviderID (Provider c) = ldap_Name lp \<and>
           UserID (Provider c) = UserID (Provider old)) \<and>
      (\<exists>t' user. t = t' @ [EvNewClaims user] \<and> Username user = UserID (Provider old) \<and>
                 \<not> Disabled user)) \<and>
   (allowall_Authenticate ap w username password tr = (Returns (x, None), t) \<longrightarrow>
      (\<exists>c. x = Some c \<and> ProviderID (Provider c) = allowall_Name ap \<and>
           UserID (Provider c) = username) \<and>
      (\<exists>t' user. t = t' @ [EvNewClaims user] \<and> Username user = username \<and> \<not> Disabled user)) \<and>
   (allowall_Refresh ap w (Some old) tr = (Returns (x, None), t) \<longrightarrow>
      (\<exists>c. x = Some c \<and> ProviderID (Provider c) = allowall_Name ap \<and>
           UserID (Provider c) = UserID (Provider old)) \<and>
      (\<exists>t' user. t = t' @ [EvNewClaims user] \<and> Username user = UserID (Provider old) \<and>
                 \<not> Disabled user))"
proof (intro conjI impI)
  assume "ldap_Authenticate lp w username password tr = (Returns (x, None), t)"
  then obtain groups tc where "ldap_claims lp w username groups tc = (Returns (x, None), t)"
    by (auto simp: ldap_Authenticate_def split: prod.splits option.splits sum.splits)
  from ldap_claims_returned [OF this]
  show "\<exists>c. x = Some c \<and> ProviderID (Provider c) = ldap_Name lp \<and>
           UserID (Provider c) = username"
    "\<exists>t' user. t = t' @ [EvNewClaims user] \<and> Username user = username \<and> \<not> Disabled user"
    by auto
next
  assume "ldap_Refresh lp w (Some old) tr = (Returns (x, None), t)"
  then obtain groups tc where
    "ldap_claims lp w (UserID (Provider old)) groups tc = (Returns (x, None), t)"
    by (auto simp: ldap_Refresh_def split: prod.splits sum.splits)
  from ldap_claims_returned [OF this]
  show "\<exists>c. x = Some c \<and> ProviderID (Provider c) = ldap_Name lp \<and>
           UserID (Provider c) = UserID (Provider old)"
    "\<exists>t' user. t = t' @ [EvNewClaims user] \<and> Username user = UserID (Provider old) \<and>
               \<not> Disabled user"
    by auto
next
  assume "allowall_Authenticate ap w username password tr = (Returns (x, None), t)"
  from allowall_claims_returned [OF this [unfolded allowall_Authenticate_def]]
  show "\<exists>c. x = Some c \<and> ProviderID (Provider c) = allowall_Name ap \<and>
           UserID (Provider c) = username"
    "\<exists>t' user. t = t' @ [EvNewClaims user] \<and> Username user = username \<and> \<not> Disabled user"
    by auto
next
  assume "allowall_Refresh ap w (Some old) tr = (Returns (x, None), t)"
  then have "allowall_claims ap w (UserID (Provider old))
               (Debugf ''Refreshing: %s'' [ArgString (UserID (Provider old))] tr)
             = (Returns (x, None), t)"
    by (simp add: allowall_Refresh_def)
  from allowall_claims_returned [OF this]
  show "\<exists>c. x = Some c \<and> ProviderID (Provider c) = allowall_Name ap \<and>
           UserID (Provider c) = UserID (Provider old)"
    "\<exists>t' user. t = t' @ [EvNewClaims user] \<and> Username user = UserID (Provider old) \<and>
               \<not> Disabled user"
    by auto
qed

lemmas run_allowall =
  allowall_Authenticate_def allowall_Refresh_def allowall_claims_def allowall_Name_def
  allowall_Type_def example_allowall_def

text \<open>
  Alice logs in and later refreshes her claims at the directory; bob does both with the
  allow-all provider. Each of the four calls returns without error, and what the
  theorem says about such a return is read off for each.
\<close>

theorem successful_claims_name_provider_and_user_witness:
  "(\<exists>x t. ldap_Authenticate example_provider example_world ''alice'' ''wonderland'' []
            = (Returns (x, None), t) \<and>
          (\<exists>c. x = Some c \<and> ProviderID (Provider c) = ''ldap'' \<and>
               UserID (Provider c) = ''alice'')) \<and>
   (\<exists>x t. ldap_Refresh example_provider example_world
            (Some \<lparr>claims_Subject = ''alice'', claims_Groups = [''admins''],
                   Provider = \<lparr>ProviderID = ''ldap'', UserID = ''alice''\<rparr>\<rparr>) []
            = (Returns (x, None), t) \<and>
          (\<exists>c. x = Some c \<and> ProviderID (Provider c) = ''ldap'' \<and>
               UserID (Provider c) = ''alice'')) \<and>
   (\<exists>x t. allowall_Authenticate example_allowall example_world ''bob'' ''anything'' []
            = (Returns (x, None), t) \<and>
          (\<exists>c. x = Some c \<and> ProviderID (Provider c) = ''allowall'' \<and>
               UserID (Provider c) = ''bob'')) \<and>
   (\<exists>x t. allowall_Refresh example_allowall example_world
            (Some \<lparr>claims_Subject = ''bob'', claims_Groups = [''cluster-admins''],
                   Provider = \<lparr>ProviderID = ''allowall'', UserID = ''bob''\<rparr>\<rparr>) []
            = (Returns (x, None), t) \<and>
          (\<exists>c. x = Some c \<and> ProviderID (Provider c) = ''allowall'' \<and>
               UserID (Provider c) = ''bob''))"
proof (intro conjI)
  let ?run = "ldap_Authenticate example_provider example_world ''alice'' ''wonderland'' []"
  let ?x = "Some \<lparr>claims_Subject = ''alice'', claims_Groups = [''admins'', ''ops''],
                  Provider = \<lparr>ProviderID = ''ldap'', UserID = ''alice''\<rparr>\<rparr>"
  have "fst ?run = Returns (?x, None)"
    by (simp add: run_example)
  then have run: "?run = (Returns (?x, None), snd ?run)"
    by (simp add: prod_eq_iff)
  have "\<exists>c. ?x = Some c \<and> ProviderID (Provider c) = ldap_Name example_provider \<and>
            UserID (Provider c) = ''alice''"
    using successful_claims_name_provider_and_user
      [where lp = example_provider and w = example_world and username = "''alice''"
         and password = "''wonderland''" and tr = "[]" and x = ?x and t = "snd ?run"] run
    by blast
  with run show "\<exists>x t. ?run = (Returns (x, None), t) \<and>
          (\<exists>c. x = Some c \<and> ProviderID (Provider c) = ''ldap'' \<and>
               UserID (Provider c) = ''alice'')"
    unfolding ldap_Name_def ldap_Type_def by blast
next
  let ?old = "\<lparr>claims_Subject = ''alice'', claims_Groups = [''admins''],
               Provider = \<lparr>ProviderID = ''ldap'', UserID = ''alice''\<rparr>\<rparr>"
  let ?run = "ldap_Refresh example_provider example_world (Some ?old) []"
  let ?x = "Some \<lparr>claims_Subject = ''alice'', claims_Groups = [''admins'', ''ops''],
                  Provider = \<lparr>ProviderID = ''ldap'', UserID = ''alice''\<rparr>\<rparr>"
  have "fst ?run = Returns (?x, None)"
    by (simp add: run_example)
  then have run: "?run = (Returns (?x, None), snd ?run)"
    by (simp add: prod_eq_iff)
  have "\<exists>c. ?x = Some c \<and> ProviderID (Provider c) = ldap_Name example_provider \<and>
            UserID (Provider c) = UserID (Provider ?old)"
    using successful_claims_name_provider_and_user
      [where lp = example_provider and w = example_world and old = ?old and tr = "[]"
         and x = ?x and t = "snd ?run"] run
    by blast
  with run show "\<exists>x t. ?run = (Returns (x, None), t) \<and>
          (\<exists>c. x = Some c \<and> ProviderID (Provider c) = ''ldap'' \<and>
               UserID (Provider c) = ''alice'')"
    unfolding ldap_Name_def ldap_Type_def by auto
next
  let ?run = "allowall_Authenticate example_allowall example_world ''bob'' ''anything'' []"
  let ?x = "Some \<lparr>claims_Subject = ''bob'', claims_Groups = [''cluster-admins''],
                  Provider = \<lparr>ProviderID = ''allowall'', UserID = ''bob''\<rparr>\<rparr>"
  have "fst ?run = Returns (?x, None)"
    by (simp add: run_allowall env_calls example_world_def example_newclaims_def)
  then have run: "?run = (Returns (?x, None), snd ?run)"
    by (simp add: prod_eq_iff)
  have "\<exists>c. ?x = Some c \<and> ProviderID (Provider c) = allowall_Name example_allowall \<and>
            UserID (Provider c) = ''bob''"
    using successful_claims_name_provider_and_user
      [where ap = example_allowall and w = example_world and username = "''bob''"
         and password = "''anything''" and tr = "[]" and x = ?x and t = "snd ?run"] run
    by blast
  with run show "\<exists>x t. ?run = (Returns (x, None), t) \<and>
          (\<exists>c. x = Some c \<and> ProviderID (Provider c) = ''allowall'' \<and>
               UserID (Provider c) = ''bob'')"
    unfolding allowall_Name_def allowall_Type_def by blast
next
  let ?old = "\<lparr>claims_Subject = ''bob'', claims_Groups = [''cluster-admins''],
               Provider = \<lparr>ProviderID = ''allowall'', UserID = ''bob''\<rparr>\<rparr>"
  let ?run = "allowall_Refresh example_allowall example_world (Some ?old) []"
  let ?x = "Some \<lparr>claims_Subject = ''bob'', claims_Groups = [''cluster-admins''],
                  Provider = \<lparr>ProviderID = ''allowall'', UserID = ''bob''\<rparr>\<rparr>"
  have "fst ?run = Returns (?x, None)"
    by (simp add: run_allowall env_calls example_world_def example_newclaims_def)
  then have run: "?run = (Returns (?x, None), snd ?run)"
    by (simp add: prod_eq_iff)
  have "\<exists>c. ?x = Some c \<and> ProviderID (Provider c) = allowall_Name example_allowall \<and>
            UserID (Provider c) = UserID (Provider ?old)"
    using successful_claims_name_provider_and_user
      [where ap = example_allowall and w = example_world and old = ?old and tr = "[]"
         and x = ?x and t = "snd ?run"] run
    by blast
  with run show "\<exists>x t. ?run = (Returns (x, None), t) \<and>
          (\<exists>c. x = Some c \<and> ProviderID (Provider c) = ''allowall'' \<and>
               UserID (Provider c) = ''bob'')"
    unfolding allowall_Name_def allowall_Type_def by auto
qed

text \<open>
  C8. The allow-all \<open>Authenticate\<close> never looks at the password: two calls that differ
  only in the password give the same result and the same trace, for every user name and
  every environment. The only call it makes besides logging is \<open>jwt.NewClaims\<close>, for a
  user with the given name and the one group \<open>cluster-admins\<close>; \<open>jwt.NewClaims\<close> is not
  part of the sources, and for every \<open>jwt.NewClaims\<close> that builds the claims of that
  user (it succeeds and the claims carry the user's groups) the call succeeds, for every
  user name and password, with claims whose groups are \<open>cluster-admins\<close> and whose
  provider identifier is \<open>allowall\<close>.
\<close>

theorem allowall_Authenticate_ignores_password:
  "allowall_Authenticate p w username password tr =
     allowall_Authenticate p w username password' tr \<and>
   (newclaims_reply w (Debugf ''Authenticating: %s'' [ArgString username] tr)
      \<lparr>Username = username, Groups = [''cluster-admins''], Disabled = False\<rparr> = (Some made, None) \<and>
    claims_Groups made =
      Groups \<lparr>Username = username, Groups = [''cluster-admins''], Disabled = False\<rparr>
    \<longrightarrow>
      (\<exists>c t. allowall_Authenticate p w username password tr = (Returns (Some c, None), t) \<and>
             claims_Groups c = [''cluster-admins''] \<and>
             ProviderID (Provider c) = ''allowall'' \<and>
             UserID (Provider c) = username))"
  unfolding allowall_Authenticate_def allowall_claims_def
  by (auto simp: env_calls Let_def allowall_Name_def allowall_Type_def
        split: prod.splits option.splits)

text \<open>
  Bob logs in with two different passwords, against a \<open>jwt.NewClaims\<close> that copies the
  user's name and groups into the claims: the two calls agree, and his claims carry the
  group \<open>cluster-admins\<close> and the provider \<open>allowall\<close>.
\<close>

theorem allowall_Authenticate_ignores_password_witness:
  "allowall_Authenticate example_allowall example_world ''bob'' ''anything'' [] =
     allowall_Authenticate example_allowall example_world ''bob'' ''something else'' [] \<and>
   (\<exists>c t. allowall_Authenticate example_allowall example_world ''bob'' ''anything'' []
            = (Returns (Some c, None), t) \<and>
          claims_Groups c = [''cluster-admins''] \<and>
          ProviderID (Provider c) = ''allowall'' \<and>
          UserID (Provider c) = ''bob'')"
proof -
  have made: "newclaims_reply example_world (Debugf ''Authenticating: %s'' [ArgString ''bob''] [])
          \<lparr>Username = ''bob'', Groups = [''cluster-admins''], Disabled = False\<rparr>
        = (Some \<lparr>claims_Subject = ''bob'', claims_Groups = [''cluster-admins''],
                 Provider = \<lparr>ProviderID = [], UserID = []\<rparr>\<rparr>, None)"
    by (simp add: example_world_def example_newclaims_def)
  have groups: "claims_Groups \<lparr>claims_Subject = ''bob'', claims_Groups = [''cluster-admins''],
                                Provider = \<lparr>ProviderID = [], UserID = []\<rparr>\<rparr>
        = Groups \<lparr>Username = ''bob'', Groups = [''cluster-admins''], Disabled = False\<rparr>"
    by simp
  show ?thesis
    using allowall_Authenticate_ignores_password
      [where p = example_allowall and w = example_world and username = "''bob''"
         and password = "''anything''" and password' = "''something else''" and tr = "[]"
         and made = "\<lparr>claims_Subject = ''bob'', claims_Groups = [''cluster-admins''],
                       Provider = \<lparr>ProviderID = [], UserID = []\<rparr>\<rparr>"]
      made groups
    by blast
qed

text \<open>
  C10. Both claims builders assign \<open>claims.Provider\<close> before \<open>err\<close> is looked at. So a
  builder panics exactly when \<open>jwt.NewClaims\<close> hands back a nil claims pointer, with or
  without an error; and when \<open>jwt.NewClaims\<close> hands back a claims value together with
  an error, the builder returns that value, with the provider attribution filled in,
  beside the error.
\<close>

theorem claims_builders_assign_before_error_check:
  "(fst (ldap_claims lp w username groups tr) = Panic) =
     (fst (newclaims_reply w tr \<lparr>Username = username, Groups = groups, Disabled = False\<rparr>)
        = None) \<and>
   (newclaims_reply w tr \<lparr>Username = username, Groups = groups, Disabled = False\<rparr>
      = (Some made, Some err) \<longrightarrow>
    fst (ldap_claims lp w username groups tr) =
      Returns (Some (made\<lparr>Provider := \<lparr>ProviderID = ldap_Name lp, UserID = username\<rparr>\<rparr>),
               Some err)) \<and>
   (fst (allowall_claims ap w username tr) = Panic) =
     (fst (newclaims_reply w tr
             \<lparr>Username = username, Groups = [''cluster-admins''], Disabled = False\<rparr>) = None) \<and>
   (newclaims_reply w tr \<lparr>Username = username, Groups = [''cluster-admins''], Disabled = False\<rparr>
      = (Some made', Some err') \<longrightarrow>
    fst (allowall_claims ap w username tr) =
      Returns (Some (made'\<lparr>Provider := \<lparr>ProviderID = allowall_Name ap, UserID = username\<rparr>\<rparr>),
               Some err'))"
  unfolding ldap_claims_def allowall_claims_def
  by (auto simp: env_calls Let_def split: prod.splits option.splits)

text \<open>
  A \<open>jwt.NewClaims\<close> that fails the usual Go way, with a nil pointer, makes both builders
  panic; one that fails with a claims value makes them return it beside the error.
\<close>

theorem claims_builders_assign_before_error_check_witness:
  "fst (ldap_claims example_provider (example_world\<lparr>newclaims_reply := failing_newclaims\<rparr>)
         ''alice'' [''ops''] []) = Panic \<and>
   fst (allowall_claims example_allowall (example_world\<lparr>newclaims_reply := failing_newclaims\<rparr>)
         ''bob'' []) = Panic \<and>
   fst (ldap_claims example_provider (example_world\<lparr>newclaims_reply := partial_newclaims\<rparr>)
         ''alice'' [''ops''] []) =
     Returns (Some \<lparr>claims_Subject = ''alice'', claims_Groups = [],
                     Provider = \<lparr>ProviderID = ''ldap'', UserID = ''alice''\<rparr>\<rparr>,
              Some (errors_New ''no entropy'')) \<and>
   fst (allowall_claims example_allowall (example_world\<lparr>newclaims_reply := partial_newclaims\<rparr>)
         ''bob'' []) =
     Returns (Some \<lparr>claims_Subject = ''bob'', claims_Groups = [],
                     Provider = \<lparr>ProviderID = ''allowall'', UserID = ''bob''\<rparr>\<rparr>,
              Some (errors_New ''no entropy''))"
  using claims_builders_assign_before_error_check
    [where lp = example_provider and ap = example_allowall
       and w = "example_world\<lparr>newclaims_reply := failing_newclaims\<rparr>"
       and username = "''alice''" and groups = "[''ops'']" and tr = "[]"]
    claims_builders_assign_before_error_check
    [where lp = example_provider and ap = example_allowall
       and w = "example_world\<lparr>newclaims_reply := failing_newclaims\<rparr>"
       and username = "''bob''" and groups = "[]" and tr = "[]"]
    claims_builders_assign_before_error_check
    [where lp = example_provider and ap = example_allowall
       and w = "example_world\<lparr>newclaims_reply := partial_newclaims\<rparr>"
       and username = "''alice''" and groups = "[''ops'']" and tr = "[]"
       and made = "\<lparr>claims_Subject = ''alice'', claims_Groups = [],
                     Provider = \<lparr>ProviderID = [], UserID = []\<rparr>\<rparr>"
       and err = "errors_New ''no entropy''"]
    claims_builders_assign_before_error_check
    [where lp = example_provider and ap = example_allowall
       and w = "example_world\<lparr>newclaims_reply := partial_newclaims\<rparr>"
       and username = "''bob''" and groups = "[]" and tr = "[]"
       and made' = "\<lparr>claims_Subject = ''bob'', claims_Groups = [],
                      Provider = \<lparr>ProviderID = [], UserID = []\<rparr>\<rparr>"
       and err' = "errors_New ''no entropy''"]
  by (simp add: example_world_def failing_newclaims_def partial_newclaims_def
        ldap_Name_def ldap_Type_def allowall_Name_def allowall_Type_def)

end
